theory Spec2Isabelle
  imports Complex_Main "HOL-Library.Char_ord" "HOL-Library.List_Lexorder" "HOL-Library.AList"
    "HOL-Library.Sublist"
begin

section \<open>Values of the host language\<close>

text \<open>
  Strings are lists of code units; the order on \<^typ>\<open>string\<close> (lexicographic, a proper
  prefix first) is the one JavaScript's relational operators use on two strings.
  Integers that the program renders into strings are natural numbers, rendered in
  decimal as a template literal does.
\<close>

fun digit_char :: "nat \<Rightarrow> char" where
  "digit_char n = (''0123456789'' ! n)"

fun show_nat :: "nat \<Rightarrow> string" where
  "show_nat n = (if n < 10 then [digit_char n] else show_nat (n div 10) @ [digit_char (n mod 10)])"

declare show_nat.simps [simp del]

text \<open>
  What the program can throw: \<open>assert\<close> and \<open>assert.strictEqual\<close> raise an
  \<open>AssertionError\<close>, \<open>throw new Error(..)\<close> an \<open>Error\<close>, a property read on
  \<open>undefined\<close> a \<open>TypeError\<close>; \<open>ExternalError\<close> is a failure inside a collaborator
  (registry client, file system, child process).
\<close>

datatype error = AssertionError string | Error string | TypeError string | ExternalError string

fun error_toString :: "error \<Rightarrow> string" where
  "error_toString (AssertionError m) = ''AssertionError [ERR_ASSERTION]: '' @ m"
| "error_toString (Error m) = ''Error: '' @ m"
| "error_toString (TypeError m) = ''TypeError: '' @ m"
| "error_toString (ExternalError m) = ''Error: '' @ m"

text \<open>
  A parsed JSON document. An object is the list of its own properties in the order
  \<open>Object.keys\<close> enumerates them; a number is the rational a finite double denotes.
  The documents compared are registries, objects of objects of strings: \<open>null\<close> and
  arrays do not occur in them and are left out.
\<close>

datatype json = JString string | JNumber rat | JBool bool | JObject "(string \<times> json) list"

type_synonym props = "(string \<times> json) list"


text \<open>
  \<open>Object.keys(v)\<close> with \<open>v[key]\<close> beside each key: the properties of an object, the
  indices of a string (each holding a one-unit string), nothing for a number or a boolean.
\<close>

fun entries_of :: "json \<Rightarrow> props" where
  "entries_of (JObject ps) = ps"
| "entries_of (JString s) = map (\<lambda>i. (show_nat i, JString [s ! i])) [0..<length s]"
| "entries_of (JNumber n) = []"
| "entries_of (JBool b) = []"

section \<open>Semantic versions\<close>

text \<open>
  Modelled from the spec: the class \<open>Semver\<close> of \<open>lib/versions\<close> is not among the
  sources. A version is a triple of non-negative integers and a tail kept as an opaque
  string (empty when there is none); versions are compared on the triple first, then on
  the tail by the string order; the version string is the dotted triple followed by the
  tail.
\<close>

record semver =
  major :: nat
  minor :: nat
  patch :: nat
  tail :: string

datatype comparison = LT | EQ | GT

definition compare :: "semver \<Rightarrow> semver \<Rightarrow> comparison" where
  "compare a b =
     (if major a < major b then LT else if major b < major a then GT
      else if minor a < minor b then LT else if minor b < minor a then GT
      else if patch a < patch b then LT else if patch b < patch a then GT
      else if tail a < tail b then LT else if tail b < tail a then GT
      else EQ)"

definition equals :: "semver \<Rightarrow> semver \<Rightarrow> bool" where
  "equals a b = (compare a b = EQ)"

definition greaterThan :: "semver \<Rightarrow> semver \<Rightarrow> bool" where
  "greaterThan a b = (compare a b = GT)"

definition versionString :: "semver \<Rightarrow> string" where
  "versionString v = show_nat (major v) @ ''.'' @ show_nat (minor v) @ ''.'' @ show_nat (patch v) @ tail v"

section \<open>What the program takes from outside the sources\<close>

text \<open>
  \<open>tryParse\<close> is \<open>Semver.tryParse\<close> on a string (no value when the string is malformed).
  \<open>coerced newer older\<close> is what the comparator's assertion does when the newer value is
  a string or a number and the older value has another runtime type: the outcome rests on
  the host language's coercions and on the parser at a non-string. \<open>computeHash\<close> is the
  digest of a serialised document, \<open>dateTime\<close> the time value of \<open>new Date(s)\<close> in
  milliseconds (no value for an invalid date, whose time value is NaN). \<open>inherited\<close>
  are the property names every object inherits from its prototype, which the \<open>in\<close>
  operator finds. The last three are strings computed from settings: the command line of
  the install step and the two paths named in the log of \<open>validate\<close>.
\<close>

record deps =
  tryParse :: "string \<Rightarrow> semver option"
  coerced :: "json \<Rightarrow> json \<Rightarrow> error option"
  computeHash :: "json \<Rightarrow> string"
  dateTime :: "string option \<Rightarrow> int option"
  inherited :: "string list"
  installCommand :: string
  outputIndexPath :: string
  installedIndexPath :: string

section \<open>The comparator \<open>assertJsonNewer\<close>\<close>

definition deprecated_msg :: "string \<Rightarrow> string \<Rightarrow> string" where
  "deprecated_msg key parent = key @ '' in '' @ parent @ '' was not found in newer -- assumed to be deprecated.''"

text \<open>
  The message of a failed assertion names the key and its parent; the values it goes on
  to print are left out.
\<close>

definition mismatch_msg :: "string \<Rightarrow> string \<Rightarrow> string" where
  "mismatch_msg key parent = key @ '' in '' @ parent @ '' did not match''"

definition assert_that :: "bool \<Rightarrow> string \<Rightarrow> error option" where
  "assert_that c msg = (if c then None else Some (AssertionError msg))"

text \<open>The condition of the \<open>"string"\<close> case, on two strings.\<close>

definition string_condition :: "deps \<Rightarrow> string \<Rightarrow> string \<Rightarrow> bool" where
  "string_condition d nw ol =
     (case tryParse d nw of
        None \<Rightarrow> ol \<le> nw
      | Some newerver \<Rightarrow>
          (case tryParse d ol of
             None \<Rightarrow> ol \<le> nw
           | Some olderver \<Rightarrow> greaterThan newerver olderver \<or> equals newerver olderver))"

lemma map_of_size_less:
  "map_of ps k = Some v \<Longrightarrow> size v < Suc (size_list (size_prod (\<lambda>x. 0) size) ps)"
  by (induction ps) (auto split: if_splits)

text \<open>
  The loop of \<open>assertJsonNewer\<close> over the keys of \<open>older\<close>, given as \<open>entries_of older\<close>.
  The result is the lines logged, in order, and the error thrown, if any.
\<close>

function assertJsonNewer_loop ::
  "deps \<Rightarrow> props \<Rightarrow> props \<Rightarrow> string \<Rightarrow> string list \<times> error option" where
  "assertJsonNewer_loop d newer [] parent = ([], None)"
| "assertJsonNewer_loop d newer ((key, ov) # rest) parent =
     (case map_of newer key of
        None \<Rightarrow>
          (case assertJsonNewer_loop d newer rest parent of
             (l, r) \<Rightarrow> (deprecated_msg key parent # l, r))
      | Some nv \<Rightarrow>
          (case (case nv of
                   JString nw \<Rightarrow>
                     ([], case ov of
                            JString ol \<Rightarrow> assert_that (string_condition d nw ol) (mismatch_msg key parent)
                          | _ \<Rightarrow> coerced d nv ov)
                 | JNumber nw \<Rightarrow>
                     ([], case ov of
                            JNumber ol \<Rightarrow> assert_that (ol \<le> nw) (mismatch_msg key parent)
                          | _ \<Rightarrow> coerced d nv ov)
                 | JBool b \<Rightarrow> ([], assert_that (nv = ov) (mismatch_msg key parent))
                 | JObject ps \<Rightarrow> assertJsonNewer_loop d ps (entries_of ov) key) of
             (l, Some e) \<Rightarrow> (l, Some e)
           | (l, None) \<Rightarrow>
               (case assertJsonNewer_loop d newer rest parent of
                  (l', r) \<Rightarrow> (l @ l', r))))"
  by pat_completeness auto
termination
  by (relation "measures [\<lambda>(d, newer, es, parent). size_list (size_prod (\<lambda>x. 0) size) newer,
                          \<lambda>(d, newer, es, parent). length es]")
     (auto dest: map_of_size_less)

definition assertJsonNewer ::
  "deps \<Rightarrow> props \<Rightarrow> json \<Rightarrow> string \<Rightarrow> string list \<times> error option" where
  "assertJsonNewer d newer older parent = assertJsonNewer_loop d newer (entries_of older) parent"

section \<open>The registry builder\<close>

text \<open>
  A \<open>Map<string, string>\<close> is the list of its entries in insertion order, with pairwise
  different keys. \<open>filterTags\<close> writes the kept entries into a fresh object, one
  assignment \<open>out[tag] = value\<close> at a time.
\<close>

type_synonym tag_map = "(string \<times> string) list"

definition latestTag :: string where
  "latestTag = ''latest''"

definition filterTags :: "tag_map \<Rightarrow> tag_map" where
  "filterTags tags =
     (let latestVersion = map_of tags latestTag in
      foldl (\<lambda>out (tag, value).
               if tag = latestTag \<or> Some value \<noteq> latestVersion
               then AList.update tag value out else out)
            [] tags)"


record npm_info =
  distTags :: tag_map
  versions :: "(string \<times> string option) list"
  time :: "(string \<times> string) list"

record typings_data =
  name :: string
  fullEscapedNpmName :: string

record registry =
  entries :: "(string \<times> tag_map) list"

fun intercalate :: "string \<Rightarrow> string list \<Rightarrow> string" where
  "intercalate sep [] = []"
| "intercalate sep [x] = x"
| "intercalate sep (x # y # ys) = x @ sep @ intercalate sep (y # ys)"

text \<open>
  The loop of \<open>generateRegistry\<close>: \<open>todo\<close> are the typings still to visit, \<open>acc\<close> the
  object \<open>entries\<close> built so far.
\<close>

fun generateRegistry_loop ::
  "typings_data list \<Rightarrow> (string \<Rightarrow> npm_info option) \<Rightarrow> (string \<times> tag_map) list \<Rightarrow>
   typings_data list \<Rightarrow> error + registry" where
  "generateRegistry_loop typings cache acc [] = Inr \<lparr>entries = acc\<rparr>"
| "generateRegistry_loop typings cache acc (typing # todo) =
     (case cache (fullEscapedNpmName typing) of
        None \<Rightarrow>
          Inl (Error (intercalate '',''
                        (map fullEscapedNpmName
                           (filter (\<lambda>t. cache (fullEscapedNpmName t) = None) typings))
                      @ '' not found in cached npm info.''))
      | Some info \<Rightarrow>
          generateRegistry_loop typings cache
            (AList.update (name typing) (filterTags (distTags info)) acc) todo)"

definition generateRegistry ::
  "typings_data list \<Rightarrow> (string \<Rightarrow> npm_info option) \<Rightarrow> error + registry" where
  "generateRegistry typings cache = generateRegistry_loop typings cache [] typings"

text \<open>
  The registry as the JSON document that \<open>index.json\<close> holds, and that \<open>readJson\<close>
  reads back from the output directory.
\<close>

definition registry_props :: "registry \<Rightarrow> props" where
  "registry_props r =
     [(''entries'',
       JObject (map (\<lambda>(pkg, tags). (pkg, JObject (map (\<lambda>(tag, v). (tag, JString v)) tags)))
                    (entries r)))]"

section \<open>The state of the published registry package\<close>

text \<open>
  Modelled from the spec: \<open>mapDefined\<close>, \<open>best\<close> and \<open>assertDefined\<close> of \<open>util/util\<close>
  and \<open>Semver.parse\<close> are not among the sources. \<open>mapDefined\<close> keeps the defined
  results; \<open>best\<close> returns nothing on an empty sequence and otherwise the element no
  later one is better than; \<open>assertDefined\<close> fails on an undefined value; the strict
  parser fails where the tolerant one has no value.
\<close>

definition mapDefined :: "'a list \<Rightarrow> ('a \<Rightarrow> 'b option) \<Rightarrow> 'b list" where
  "mapDefined xs f = List.map_filter f xs"

fun best :: "'a list \<Rightarrow> ('a \<Rightarrow> 'a \<Rightarrow> bool) \<Rightarrow> 'a option" where
  "best [] isBetter = None"
| "best (x # xs) isBetter = Some (foldl (\<lambda>res v. if isBetter v res then v else res) x xs)"

definition assertDefined :: "'a option \<Rightarrow> error + 'a" where
  "assertDefined x = (case x of None \<Rightarrow> Inl (AssertionError ''assertDefined'') | Some v \<Rightarrow> Inr v)"

definition parse :: "deps \<Rightarrow> string \<Rightarrow> error + semver" where
  "parse d s = (case tryParse d s of None \<Rightarrow> Inl (Error (''Unexpected semver: '' @ s)) | Some v \<Rightarrow> Inr v)"

definition getLatestVersion :: "deps \<Rightarrow> string list \<Rightarrow> semver option" where
  "getLatestVersion d vs = best (mapDefined vs (tryParse d)) (\<lambda>a b. greaterThan a b)"

record processed_npm_info =
  npmVersion :: semver
  highestSemverVersion :: semver
  npmContentHash :: string
  lastModified :: "int option"

definition strictEqual_msg :: "string \<Rightarrow> string" where
  "strictEqual_msg what = ''Expected values to be strictly equal: '' @ what"

text \<open>
  \<open>fetched\<close> is what \<open>client.fetchNpmInfo\<close> answered. Reading \<open>versionString\<close> of an
  undefined highest version, or the hash of a version that is not published, is a
  \<open>TypeError\<close>.
\<close>

definition fetchAndProcessNpmInfo ::
  "deps \<Rightarrow> error + npm_info option \<Rightarrow> error + processed_npm_info" where
  "fetchAndProcessNpmInfo d fetched =
     (case fetched of
        Inl e \<Rightarrow> Inl e
      | Inr fetched_info \<Rightarrow>
     (case assertDefined fetched_info of
        Inl e \<Rightarrow> Inl e
      | Inr info \<Rightarrow>
     (case assertDefined (map_of (distTags info) ''latest'') of
        Inl e \<Rightarrow> Inl e
      | Inr latest \<Rightarrow>
     (case parse d latest of
        Inl e \<Rightarrow> Inl e
      | Inr npmVersion' \<Rightarrow>
     (case getLatestVersion d (map fst (versions info)) of
        None \<Rightarrow> Inl (TypeError ''Cannot read property versionString of undefined'')
      | Some highest \<Rightarrow>
          if Some (versionString highest) \<noteq> map_of (distTags info) ''next''
          then Inl (AssertionError (strictEqual_msg ''highestSemverVersion.versionString, distTags.get(next)''))
          else
            (case map_of (versions info) (versionString npmVersion') of
               None \<Rightarrow> Inl (TypeError ''Cannot read property typesPublisherContentHash of undefined'')
             | Some hash \<Rightarrow>
                 Inr \<lparr>npmVersion = npmVersion',
                      highestSemverVersion = highest,
                      npmContentHash = (case hash of None \<Rightarrow> '''' | Some h \<Rightarrow> h),
                      lastModified = dateTime d (map_of (time info) ''modified'')\<rparr>))))))"

section \<open>Collaborators and effects\<close>

datatype registryName = github | npm

record package_json =
  name :: string
  version :: string
  description :: string
  repository :: "string \<times> string"
  "keywords" :: "string list"
  author :: string
  license :: string
  typesPublisherContentHash :: string
  publishConfig :: "string option"

text \<open>
  One run of the program meets one answer of each collaborator. \<open>publishToRegistry\<close>
  runs once per channel and calls each collaborator at most once, so the answers are
  given per channel: an error, or the value read.
\<close>

record world =
  fetchNpmInfo :: "error + npm_info option"
  allLatestTypings :: "typings_data list"
  getNpmInfoFromCache :: "string \<Rightarrow> npm_info option"
  now :: int
  dry :: bool
  readNotNeededPackages :: "error + string list"
  writeOutput :: "registryName \<Rightarrow> error option"
  createClient :: "registryName \<Rightarrow> error option"
  clientPublish :: "registryName \<Rightarrow> error option"
  clientTag :: "registryName \<Rightarrow> error option"
  prepareValidate :: "registryName \<Rightarrow> error option"
  npmInstall :: "registryName \<Rightarrow> error option"
  readInstalled :: "registryName \<Rightarrow> error + json"
  writeLog :: "error option"

text \<open>
  The calls that reach outside, in the order they are made: a line of the log, the
  output directory written, the \<open>npm install\<close> of the validation, a publish, the
  cool-down, a dist-tag set (channel, package, version, tag, dry), the log file written.
  A call stands in the trace whether or not it fails.
\<close>

datatype event =
    Log string
  | WriteOutput package_json registry
  | NpmInstall
  | Publish registryName package_json bool
  | Sleep nat
  | Tag registryName string string string bool
  | WriteLog string "string list"


type_synonym 'a run = "event list \<times> (error + 'a)"

definition succeed :: "'a \<Rightarrow> 'a run" where
  "succeed x = ([], Inr x)"

definition lift :: "error + 'a \<Rightarrow> 'a run" where
  "lift r = ([], r)"

definition emit :: "event \<Rightarrow> unit run" where
  "emit ev = ([ev], Inr ())"

definition outcome :: "error option \<Rightarrow> error + unit" where
  "outcome r = (case r of None \<Rightarrow> Inr () | Some e \<Rightarrow> Inl e)"

definition call :: "event \<Rightarrow> error option \<Rightarrow> unit run" where
  "call ev r = ([ev], outcome r)"

definition bind_run :: "'a run \<Rightarrow> ('a \<Rightarrow> 'b run) \<Rightarrow> 'b run" where
  "bind_run m f =
     (case m of
        (tr, Inl e) \<Rightarrow> (tr, Inl e)
      | (tr, Inr x) \<Rightarrow> (case f x of (tr', r) \<Rightarrow> (tr @ tr', r)))"

definition catch_run :: "'a run \<Rightarrow> (error \<Rightarrow> 'a run) \<Rightarrow> 'a run" where
  "catch_run m h =
     (case m of
        (tr, Inl e) \<Rightarrow> (case h e of (tr', r) \<Rightarrow> (tr @ tr', r))
      | (tr, Inr x) \<Rightarrow> (tr, Inr x))"

section \<open>The publisher\<close>

definition typesRegistry :: string where
  "typesRegistry = ''types-registry''"

definition millisecondsPerDay :: int where
  "millisecondsPerDay = 1000 * 60 * 60 * 24"

text \<open>
  \<open>time_ms\<close> is the time value of the date; none for an invalid date, whose NaN compares
  false. Time values are whole milliseconds, and on them the rounded quotient of the
  program exceeds 7 exactly when the quotient computed here does.
\<close>

definition isSevenDaysAfter :: "int \<Rightarrow> int option \<Rightarrow> bool" where
  "isSevenDaysAfter now_ms time_ms =
     (case time_ms of
        None \<Rightarrow> False
      | Some t \<Rightarrow>
          (let diff = now_ms - t;
               days = real_of_int diff / real_of_int millisecondsPerDay
           in days > 7))"

definition generatePackageJson :: "string \<Rightarrow> registryName \<Rightarrow> string \<Rightarrow> string \<Rightarrow> package_json" where
  "generatePackageJson name' registryName' version' typesPublisherContentHash' =
     \<lparr>name = name',
      version = version',
      description = ''A registry of TypeScript declaration file packages published within the @types scope.'',
      repository = (''git'',
                    if registryName' = github
                    then ''https://github.com/DefinitelyTyped/DefinitelyTyped.git''
                    else ''https://github.com/Microsoft/types-publisher.git''),
      keywords = [''TypeScript'', ''declaration'', ''files'', ''types'', ''packages''],
      author = ''Microsoft Corp.'',
      license = ''MIT'',
      typesPublisherContentHash = typesPublisherContentHash',
      publishConfig = (if registryName' = github then Some ''https://npm.pkg.github.com/'' else None)\<rparr>"

definition installForValidate :: "deps \<Rightarrow> world \<Rightarrow> registryName \<Rightarrow> unit run" where
  "installForValidate d w rn =
     bind_run (lift (outcome (prepareValidate w rn))) (\<lambda>_.
     bind_run (emit (Log (installCommand d))) (\<lambda>_.
     call NpmInstall (npmInstall w rn)))"

text \<open>
  \<open>validate\<close> compares the document just written to the output directory, as the
  newer one, with the installed one, as the older.
\<close>

definition validate :: "deps \<Rightarrow> world \<Rightarrow> registry \<Rightarrow> registryName \<Rightarrow> unit run" where
  "validate d w reg rn =
     bind_run (installForValidate d w rn) (\<lambda>_.
     bind_run (emit (Log (''Checking that '' @ outputIndexPath d @ '' is newer than '' @ installedIndexPath d))) (\<lambda>_.
     bind_run (lift (readInstalled w rn)) (\<lambda>older.
     (case assertJsonNewer d (registry_props reg) older '''' of
        (lines, r) \<Rightarrow> (map Log lines, outcome r)))))"

text \<open>
  \<open>actual.entries\<close>: the property of an object; undefined on another value. A
  \<open>for .. in\<close> over undefined runs no iteration.
\<close>

fun property :: "json \<Rightarrow> string \<Rightarrow> json option" where
  "property (JObject ps) k = map_of ps k"
| "property v k = None"

definition forIn_keys :: "json option \<Rightarrow> string list" where
  "forIn_keys v = (case v of None \<Rightarrow> [] | Some x \<Rightarrow> map fst (entries_of x))"

text \<open>\<open>key in obj\<close>: an own property of the object, or an inherited one.\<close>

definition in_object :: "deps \<Rightarrow> string \<Rightarrow> (string \<times> 'a) list \<Rightarrow> bool" where
  "in_object d key obj = (key \<in> set (map fst obj) \<or> key \<in> set (inherited d))"

fun validateIsSubset_loop :: "deps \<Rightarrow> string list \<Rightarrow> registry \<Rightarrow> string list \<Rightarrow> error option" where
  "validateIsSubset_loop d [] expected notNeeded = None"
| "validateIsSubset_loop d (key # ks) expected notNeeded =
     (if \<not> in_object d key (entries expected) \<and> \<not> list_ex (\<lambda>p. p = key) notNeeded
      then Some (Error (''Actual types-registry has unexpected key '' @ key))
      else validateIsSubset_loop d ks expected notNeeded)"

text \<open>A not-needed package is given by its name, the one field read.\<close>

definition validateIsSubset :: "deps \<Rightarrow> world \<Rightarrow> string list \<Rightarrow> registry \<Rightarrow> registryName \<Rightarrow> unit run" where
  "validateIsSubset d w notNeeded reg rn =
     bind_run (installForValidate d w rn) (\<lambda>_.
     bind_run (lift (readInstalled w rn)) (\<lambda>actual.
     lift (outcome (validateIsSubset_loop d (forIn_keys (property actual ''entries'')) reg notNeeded))))"

definition publish ::
  "deps \<Rightarrow> world \<Rightarrow> registry \<Rightarrow> registryName \<Rightarrow> string \<Rightarrow> package_json \<Rightarrow> string \<Rightarrow> unit run" where
  "publish d w reg rn packageName packageJson version' =
     bind_run (call (Publish rn packageJson (dry w)) (clientPublish w rn)) (\<lambda>_.
     bind_run (if dry w then emit (Log ''(dry) Skipping 60 second sleep...'')
               else bind_run (emit (Log ''Sleeping for 60 seconds ...'')) (\<lambda>_. emit (Sleep 60))) (\<lambda>_.
     bind_run (validate d w reg rn) (\<lambda>_.
     call (Tag rn packageName version' ''latest'' (dry w)) (clientTag w rn))))"

definition packageName_of :: "registryName \<Rightarrow> string" where
  "packageName_of rn = (if rn = github then ''@definitelytyped/'' @ typesRegistry else typesRegistry)"

definition noop_reason :: "string \<Rightarrow> string \<Rightarrow> string" where
  "noop_reason npmContentHash' newContentHash =
     (if npmContentHash' = newContentHash then ''No new packages published''
      else ''Was modified less than a week ago'')"

definition publishToRegistry ::
  "deps \<Rightarrow> world \<Rightarrow> processed_npm_info \<Rightarrow> registry \<Rightarrow> string \<Rightarrow> string \<Rightarrow> bool \<Rightarrow>
   registryName \<Rightarrow> unit run" where
  "publishToRegistry d w p reg newContentHash newVersion isTimeForNewVersion rn =
     (let packageName = packageName_of rn;
          packageJson = generatePackageJson packageName rn newVersion newContentHash
      in
      bind_run (call (WriteOutput packageJson reg) (writeOutput w rn)) (\<lambda>_.
      if \<not> equals (highestSemverVersion p) (npmVersion p) then
        bind_run (emit (Log ''Old version of types-registry was never tagged latest, so updating'')) (\<lambda>_.
        bind_run (lift (readNotNeededPackages w)) (\<lambda>notNeeded.
        bind_run (validateIsSubset d w notNeeded reg rn) (\<lambda>_.
        bind_run (lift (outcome (createClient w rn))) (\<lambda>_.
        call (Tag rn packageName (versionString (highestSemverVersion p)) ''latest'' (dry w))
             (clientTag w rn)))))
      else if npmContentHash p \<noteq> newContentHash \<and> isTimeForNewVersion then
        bind_run (emit (Log ''New packages have been added, so publishing a new registry.'')) (\<lambda>_.
        bind_run (lift (outcome (createClient w rn))) (\<lambda>_.
        publish d w reg rn packageName packageJson newVersion))
      else
        bind_run (emit (Log (noop_reason (npmContentHash p) newContentHash
                             @ '', so no need to publish new registry.''))) (\<lambda>_.
        validate d w reg rn)))"

definition newVersion_of :: "processed_npm_info \<Rightarrow> string" where
  "newVersion_of p = ''0.1.'' @ show_nat (patch (npmVersion p) + 1)"

definition logged :: "event list \<Rightarrow> string list" where
  "logged tr = List.map_filter (\<lambda>ev. case ev of Log l \<Rightarrow> Some l | _ \<Rightarrow> None) tr"

text \<open>The two channels, once the state of the published package has passed its checks.\<close>

definition publishChannels :: "deps \<Rightarrow> world \<Rightarrow> processed_npm_info \<Rightarrow> registry \<Rightarrow> unit run" where
  "publishChannels d w p registryJsonData =
     (let newContentHash = computeHash d (JObject (registry_props registryJsonData));
          newVersion = newVersion_of p;
          isTimeForNewVersion = isSevenDaysAfter (now w) (lastModified p)
      in
      bind_run (catch_run (publishToRegistry d w p registryJsonData newContentHash newVersion
                             isTimeForNewVersion github)
                  (\<lambda>e. emit (Log (''publishing to github failed: '' @ error_toString e)))) (\<lambda>_.
      publishToRegistry d w p registryJsonData newContentHash newVersion isTimeForNewVersion npm))"

text \<open>What follows the two assertions on the published version: the registry is built and both channels run.\<close>

definition publishChecked :: "deps \<Rightarrow> world \<Rightarrow> processed_npm_info \<Rightarrow> unit run" where
  "publishChecked d w p =
     bind_run (lift (generateRegistry (allLatestTypings w) (getNpmInfoFromCache w))) (\<lambda>registryJsonData.
     publishChannels d w p registryJsonData)"

text \<open>The last statement, \<open>writeLog\<close>, is reached when nothing was thrown before it.\<close>

definition finish :: "world \<Rightarrow> unit run \<Rightarrow> unit run" where
  "finish w m =
     (case m of
        (tr, Inl e) \<Rightarrow> (tr, Inl e)
      | (tr, Inr u) \<Rightarrow> (tr @ [WriteLog ''publish-registry.md'' (logged tr)], outcome (writeLog w)))"

definition header_line :: string where
  "header_line = ''=== Publishing types-registry ===''"

definition publishRegistry :: "deps \<Rightarrow> world \<Rightarrow> unit run" where
  "publishRegistry d w =
     finish w
       (bind_run (emit (Log header_line)) (\<lambda>_.
        bind_run (lift (fetchAndProcessNpmInfo d (fetchNpmInfo w))) (\<lambda>p.
        bind_run (lift (outcome (assert_that (major (npmVersion p) = 0) (strictEqual_msg ''npmVersion.major, 0'')))) (\<lambda>_.
        bind_run (lift (outcome (assert_that (minor (npmVersion p) = 1) (strictEqual_msg ''npmVersion.minor, 1'')))) (\<lambda>_.
        publishChecked d w p)))))"





section \<open>The requirement on strings, in the specification's words\<close>


section \<open>A concrete setting\<close>

text \<open>
  Modelled from the spec: a tolerant parser for the dotted triple of non-negative
  integers with an optional suffix, used where a theorem is applied to concrete input.
\<close>

definition is_digit :: "char \<Rightarrow> bool" where
  "is_digit c = (c \<in> set ''0123456789'')"

definition digit_value :: "char \<Rightarrow> nat" where
  "digit_value c = length (takeWhile (\<lambda>x. x \<noteq> c) ''0123456789'')"

definition read_nat :: "string \<Rightarrow> (nat \<times> string) option" where
  "read_nat s =
     (let ds = takeWhile is_digit s in
      if ds = [] then None
      else Some (foldl (\<lambda>a c. 10 * a + digit_value c) 0 ds, dropWhile is_digit s))"

definition expect_dot :: "string \<Rightarrow> string option" where
  "expect_dot s = (case s of [] \<Rightarrow> None | c # r \<Rightarrow> if c = CHR ''.'' then Some r else None)"

definition tryParse_spec :: "string \<Rightarrow> semver option" where
  "tryParse_spec s =
     (case read_nat s of None \<Rightarrow> None | Some (ma, r1) \<Rightarrow>
     (case expect_dot r1 of None \<Rightarrow> None | Some r1' \<Rightarrow>
     (case read_nat r1' of None \<Rightarrow> None | Some (mi, r2) \<Rightarrow>
     (case expect_dot r2 of None \<Rightarrow> None | Some r2' \<Rightarrow>
     (case read_nat r2' of None \<Rightarrow> None | Some (pa, t) \<Rightarrow>
        Some \<lparr>major = ma, minor = mi, patch = pa, tail = t\<rparr>)))))"

text \<open>In the example a date is written as its time value in decimal.\<close>

definition example_deps :: deps where
  "example_deps =
     \<lparr>tryParse = tryParse_spec,
      coerced = (\<lambda>nv ov. Some (AssertionError ''operands of different types'')),
      computeHash = (\<lambda>doc. ''H2''),
      dateTime = (\<lambda>s. case s of None \<Rightarrow> None | Some x \<Rightarrow> map_option (\<lambda>r. int (fst r)) (read_nat x)),
      inherited = [''constructor'', ''toString'', ''valueOf'', ''hasOwnProperty''],
      installCommand = ''npm install types-registry@next'',
      outputIndexPath = ''output/types-registry/index.json'',
      installedIndexPath = ''validateOutput/node_modules/types-registry/index.json''\<rparr>"

lemmas parse_simps = tryParse_spec_def read_nat_def expect_dot_def is_digit_def digit_value_def

definition v016 :: semver where
  "v016 = \<lparr>major = 0, minor = 1, patch = 6, tail = ''''\<rparr>"


text \<open>
  A published package at \<open>0.1.6\<close> for both tags, hash \<open>H1\<close>, modified at time 0; an empty
  package list; every collaborator succeeds and the installed index has no entries.
\<close>

definition example_info :: npm_info where
  "example_info =
     \<lparr>distTags = [(''latest'', ''0.1.6''), (''next'', ''0.1.6'')],
      versions = [(''0.1.6'', Some ''H1'')],
      time = [(''modified'', ''0'')]\<rparr>"

definition example_world :: world where
  "example_world =
     \<lparr>fetchNpmInfo = Inr (Some example_info),
      allLatestTypings = [],
      getNpmInfoFromCache = (\<lambda>n. None),
      now = 10 * millisecondsPerDay,
      dry = False,
      readNotNeededPackages = Inr [],
      writeOutput = (\<lambda>rn. None),
      createClient = (\<lambda>rn. None),
      clientPublish = (\<lambda>rn. None),
      clientTag = (\<lambda>rn. None),
      prepareValidate = (\<lambda>rn. None),
      npmInstall = (\<lambda>rn. None),
      readInstalled = (\<lambda>rn. Inr (JObject [(''entries'', JObject [])])),
      writeLog = None\<rparr>"

definition example_processed :: processed_npm_info where
  "example_processed =
     \<lparr>npmVersion = v016, highestSemverVersion = v016, npmContentHash = ''H1'', lastModified = Some 0\<rparr>"

definition example_registry :: registry where
  "example_registry = \<lparr>entries = []\<rparr>"









definition next_assertion :: error where
  "next_assertion = AssertionError (strictEqual_msg ''highestSemverVersion.versionString, distTags.get(next)'')"

definition major_assertion :: error where
  "major_assertion = AssertionError (strictEqual_msg ''npmVersion.major, 0'')"

definition minor_assertion :: error where
  "minor_assertion = AssertionError (strictEqual_msg ''npmVersion.minor, 1'')"

definition github_fails_world :: world where
  "github_fails_world =
     example_world\<lparr>clientPublish := (\<lambda>rn. if rn = github then Some (ExternalError ''publish failed'') else None)\<rparr>"

definition npm_fails_world :: world where
  "npm_fails_world =
     example_world\<lparr>clientPublish := (\<lambda>rn. if rn = npm then Some (ExternalError ''publish failed'') else None)\<rparr>"

definition next_behind_info :: npm_info where
  "next_behind_info = example_info\<lparr>distTags := [(''latest'', ''0.1.6''), (''next'', ''0.1.5'')]\<rparr>"

definition major_one_info :: npm_info where
  "major_one_info =
     \<lparr>distTags = [(''latest'', ''1.0.0''), (''next'', ''1.0.0'')],
      versions = [(''1.0.0'', None)],
      time = []\<rparr>"

definition latest_unpublished_info :: npm_info where
  "latest_unpublished_info =
     \<lparr>distTags = [(''latest'', ''1.0.0''), (''next'', ''0.1.6'')],
      versions = [(''0.1.6'', Some ''H1'')],
      time = []\<rparr>"

definition v100 :: semver where
  "v100 = \<lparr>major = 1, minor = 0, patch = 0, tail = ''''\<rparr>"

section \<open>Properties of the comparator\<close>













section \<open>Properties of the registry builder\<close>










section \<open>Properties of the publisher\<close>

lemma fst_bind_run:
  "fst (bind_run m f) = fst m @ (case snd m of Inl e \<Rightarrow> [] | Inr x \<Rightarrow> fst (f x))"
  by (cases m) (auto simp: bind_run_def split: sum.splits prod.splits)

lemma snd_bind_run:
  "snd (bind_run m f) = (case snd m of Inl e \<Rightarrow> Inl e | Inr x \<Rightarrow> snd (f x))"
  by (cases m) (auto simp: bind_run_def split: sum.splits prod.splits)

lemmas run_simps = fst_bind_run snd_bind_run call_def emit_def lift_def succeed_def outcome_def


lemma installForValidate_result:
  "snd (installForValidate d w rn) = Inr () \<longleftrightarrow> prepareValidate w rn = None \<and> npmInstall w rn = None"
  by (auto simp: installForValidate_def run_simps split: option.splits)





lemma validate_result:
  "snd (validate d w reg rn) = Inr () \<longleftrightarrow>
     prepareValidate w rn = None \<and> npmInstall w rn = None \<and>
     (\<exists>older. readInstalled w rn = Inr older \<and>
        snd (assertJsonNewer d (registry_props reg) older '''') = None)"
  using installForValidate_result[of d w rn]
  by (auto simp: validate_def run_simps split: sum.splits option.splits prod.splits)
















lemma fetch_steps:
  "fetched = Inr (Some info) \<Longrightarrow> map_of (distTags info) ''latest'' = Some latest \<Longrightarrow>
   tryParse d latest = Some v \<Longrightarrow> getLatestVersion d (map fst (versions info)) = Some h \<Longrightarrow>
   fetchAndProcessNpmInfo d fetched =
     (if Some (versionString h) \<noteq> map_of (distTags info) ''next'' then Inl next_assertion
      else case map_of (versions info) (versionString v) of
             None \<Rightarrow> Inl (TypeError ''Cannot read property typesPublisherContentHash of undefined'')
           | Some hash \<Rightarrow>
               Inr \<lparr>npmVersion = v, highestSemverVersion = h,
                    npmContentHash = (case hash of None \<Rightarrow> '''' | Some x \<Rightarrow> x),
                    lastModified = dateTime d (map_of (time info) ''modified'')\<rparr>)"
  by (simp add: fetchAndProcessNpmInfo_def assertDefined_def parse_def next_assertion_def)

lemma publishRegistry_fetch_failed:
  "fetchAndProcessNpmInfo d (fetchNpmInfo w) = Inl e \<Longrightarrow>
   publishRegistry d w = ([Log header_line], Inl e)"
  by (simp add: publishRegistry_def finish_def bind_run_def emit_def lift_def)

lemma outcome_assert_that:
  "outcome (assert_that c msg) = (if c then Inr () else Inl (AssertionError msg))"
  by (simp add: outcome_def assert_that_def)

lemma publishRegistry_fetched:
  "fetchAndProcessNpmInfo d (fetchNpmInfo w) = Inr p \<Longrightarrow>
   publishRegistry d w =
     (if major (npmVersion p) \<noteq> 0 then ([Log header_line], Inl major_assertion)
      else if minor (npmVersion p) \<noteq> 1 then ([Log header_line], Inl minor_assertion)
      else finish w (bind_run (emit (Log header_line)) (\<lambda>_. publishChecked d w p)))"
  by (simp add: publishRegistry_def finish_def bind_run_def emit_def lift_def outcome_assert_that
      major_assertion_def minor_assertion_def)

text \<open>
  C9, as the code has it. Let the published package be fetched, its \<open>latest\<close> tag parse to a version and
  some published version parse, so that there is a highest one. If the version string
  of the highest version is not the \<open>next\<close> tag, the run stops at that assertion, having
  logged its first line only. Otherwise, the version under \<open>latest\<close> being among the
  published ones, the run stops at the assertion on the major number when that is not 0,
  at the assertion on the minor number when that is not 1, and in each case nothing has
  been written, published or tagged; when the version is \<open>0.1.x\<close> and \<open>next\<close> is the
  highest version, none of the three assertions fails and the run goes on to build the
  registry and to both channels.
\<close>

theorem invariant_assertions:
  "fetchNpmInfo w = Inr (Some info) \<and> map_of (distTags info) ''latest'' = Some latest \<and>
   tryParse d latest = Some v \<and> getLatestVersion d (map fst (versions info)) = Some h
   \<longrightarrow>
     (Some (versionString h) \<noteq> map_of (distTags info) ''next'' \<longrightarrow>
        publishRegistry d w = ([Log header_line], Inl next_assertion))
   \<and> (Some (versionString h) = map_of (distTags info) ''next'' \<and>
       map_of (versions info) (versionString v) = Some hash \<longrightarrow>
        (major v \<noteq> 0 \<longrightarrow> publishRegistry d w = ([Log header_line], Inl major_assertion))
      \<and> (major v = 0 \<and> minor v \<noteq> 1 \<longrightarrow> publishRegistry d w = ([Log header_line], Inl minor_assertion))
      \<and> (major v = 0 \<and> minor v = 1 \<longrightarrow>
           publishRegistry d w =
             finish w (bind_run (emit (Log header_line)) (\<lambda>_.
               publishChecked d w
                 \<lparr>npmVersion = v, highestSemverVersion = h,
                  npmContentHash = (case hash of None \<Rightarrow> '''' | Some x \<Rightarrow> x),
                  lastModified = dateTime d (map_of (time info) ''modified'')\<rparr>))))"
proof (intro impI)
  assume a: "fetchNpmInfo w = Inr (Some info) \<and> map_of (distTags info) ''latest'' = Some latest \<and>
   tryParse d latest = Some v \<and> getLatestVersion d (map fst (versions info)) = Some h"
  then have f: "fetchNpmInfo w = Inr (Some info)" and l: "map_of (distTags info) ''latest'' = Some latest"
    and pv: "tryParse d latest = Some v" and hv: "getLatestVersion d (map fst (versions info)) = Some h"
    by simp_all
  note steps = fetch_steps[OF f l pv hv]
  let ?p = "\<lparr>npmVersion = v, highestSemverVersion = h,
                  npmContentHash = (case hash of None \<Rightarrow> '''' | Some x \<Rightarrow> x),
                  lastModified = dateTime d (map_of (time info) ''modified'')\<rparr>"
  have c1: "Some (versionString h) \<noteq> map_of (distTags info) ''next'' \<longrightarrow>
        publishRegistry d w = ([Log header_line], Inl next_assertion)"
  proof
    assume "Some (versionString h) \<noteq> map_of (distTags info) ''next''"
    with steps have "fetchAndProcessNpmInfo d (fetchNpmInfo w) = Inl next_assertion"
      by simp
    then show "publishRegistry d w = ([Log header_line], Inl next_assertion)"
      by (rule publishRegistry_fetch_failed)
  qed
  have c2: "Some (versionString h) = map_of (distTags info) ''next'' \<and>
       map_of (versions info) (versionString v) = Some hash \<longrightarrow>
        (major v \<noteq> 0 \<longrightarrow> publishRegistry d w = ([Log header_line], Inl major_assertion))
      \<and> (major v = 0 \<and> minor v \<noteq> 1 \<longrightarrow> publishRegistry d w = ([Log header_line], Inl minor_assertion))
      \<and> (major v = 0 \<and> minor v = 1 \<longrightarrow>
           publishRegistry d w = finish w (bind_run (emit (Log header_line)) (\<lambda>_. publishChecked d w ?p)))"
  proof
    assume "Some (versionString h) = map_of (distTags info) ''next'' \<and>
       map_of (versions info) (versionString v) = Some hash"
    with steps have "fetchAndProcessNpmInfo d (fetchNpmInfo w) = Inr ?p"
      by simp
    from publishRegistry_fetched[OF this]
    show "(major v \<noteq> 0 \<longrightarrow> publishRegistry d w = ([Log header_line], Inl major_assertion))
      \<and> (major v = 0 \<and> minor v \<noteq> 1 \<longrightarrow> publishRegistry d w = ([Log header_line], Inl minor_assertion))
      \<and> (major v = 0 \<and> minor v = 1 \<longrightarrow>
           publishRegistry d w = finish w (bind_run (emit (Log header_line)) (\<lambda>_. publishChecked d w ?p)))"
      by simp
  qed
  from c1 c2 show "(Some (versionString h) \<noteq> map_of (distTags info) ''next'' \<longrightarrow>
        publishRegistry d w = ([Log header_line], Inl next_assertion))
   \<and> (Some (versionString h) = map_of (distTags info) ''next'' \<and>
       map_of (versions info) (versionString v) = Some hash \<longrightarrow>
        (major v \<noteq> 0 \<longrightarrow> publishRegistry d w = ([Log header_line], Inl major_assertion))
      \<and> (major v = 0 \<and> minor v \<noteq> 1 \<longrightarrow> publishRegistry d w = ([Log header_line], Inl minor_assertion))
      \<and> (major v = 0 \<and> minor v = 1 \<longrightarrow>
           publishRegistry d w = finish w (bind_run (emit (Log header_line)) (\<lambda>_. publishChecked d w ?p))))"
    by (rule conjI)
qed

lemma snd_finish:
  "snd (finish w m) = (case snd m of Inl e \<Rightarrow> Inl e | Inr u \<Rightarrow> outcome (writeLog w))"
  by (cases m) (auto simp: finish_def split: sum.splits)

lemma publishChannels_eq:
  "publishChannels d w p reg =
     (let hash = computeHash d (JObject (registry_props reg));
          g = publishToRegistry d w p reg hash (newVersion_of p) (isSevenDaysAfter (now w) (lastModified p)) github;
          n = publishToRegistry d w p reg hash (newVersion_of p) (isSevenDaysAfter (now w) (lastModified p)) npm
      in (fst g @ (case snd g of
                     Inl e \<Rightarrow> [Log (''publishing to github failed: '' @ error_toString e)]
                   | Inr u \<Rightarrow> []) @ fst n,
          snd n))"
  by (simp add: publishChannels_def Let_def bind_run_def catch_run_def emit_def
      split: prod.splits sum.splits)

text \<open>
  C2, as the code has it. The channel whose manifest carries \<open>publishConfig\<close> is
  \<open>github\<close>, and it runs first. Whatever \<open>publishToRegistry\<close> throws on that channel,
  at any of its steps, is caught: one line is logged and the \<open>npm\<close> channel, whose
  manifest has no \<open>publishConfig\<close>, runs its whole workflow. What the \<open>npm\<close> channel
  throws is the result of the run, as is what is thrown before the channels start.
\<close>

theorem github_failure_is_swallowed:
  "publishConfig (generatePackageJson (packageName_of github) github v h) = Some ''https://npm.pkg.github.com/''
   \<and> publishConfig (generatePackageJson (packageName_of npm) npm v h) = None
   \<and> (let hash = computeHash d (JObject (registry_props reg));
          g = publishToRegistry d w p reg hash (newVersion_of p) (isSevenDaysAfter (now w) (lastModified p)) github;
          n = publishToRegistry d w p reg hash (newVersion_of p) (isSevenDaysAfter (now w) (lastModified p)) npm
      in publishChannels d w p reg =
           (fst g @ (case snd g of
                       Inl e \<Rightarrow> [Log (''publishing to github failed: '' @ error_toString e)]
                     | Inr u \<Rightarrow> []) @ fst n,
            snd n)
         \<and> (fetchAndProcessNpmInfo d (fetchNpmInfo w) = Inr p \<and>
             major (npmVersion p) = 0 \<and> minor (npmVersion p) = 1 \<and>
             generateRegistry (allLatestTypings w) (getNpmInfoFromCache w) = Inr reg \<longrightarrow>
               snd (publishRegistry d w) = (case snd n of Inl e \<Rightarrow> Inl e | Inr u \<Rightarrow> outcome (writeLog w))))
   \<and> (\<forall>e. fetchAndProcessNpmInfo d (fetchNpmInfo w) = Inl e \<longrightarrow> snd (publishRegistry d w) = Inl e)
   \<and> (\<forall>e. fetchAndProcessNpmInfo d (fetchNpmInfo w) = Inr p \<and>
           major (npmVersion p) = 0 \<and> minor (npmVersion p) = 1 \<and>
           generateRegistry (allLatestTypings w) (getNpmInfoFromCache w) = Inl e \<longrightarrow>
             snd (publishRegistry d w) = Inl e)"
proof (intro conjI allI impI)
  show "publishConfig (generatePackageJson (packageName_of github) github v h) = Some ''https://npm.pkg.github.com/''"
    by (simp add: generatePackageJson_def)
  show "publishConfig (generatePackageJson (packageName_of npm) npm v h) = None"
    by (simp add: generatePackageJson_def)
next
  let ?hash = "computeHash d (JObject (registry_props reg))"
  let ?n = "publishToRegistry d w p reg ?hash (newVersion_of p) (isSevenDaysAfter (now w) (lastModified p)) npm"
  have top: "fetchAndProcessNpmInfo d (fetchNpmInfo w) = Inr p \<and>
             major (npmVersion p) = 0 \<and> minor (npmVersion p) = 1 \<and>
             generateRegistry (allLatestTypings w) (getNpmInfoFromCache w) = Inr reg \<longrightarrow>
               snd (publishRegistry d w) = (case snd ?n of Inl e \<Rightarrow> Inl e | Inr u \<Rightarrow> outcome (writeLog w))"
  proof
    assume a: "fetchAndProcessNpmInfo d (fetchNpmInfo w) = Inr p \<and>
             major (npmVersion p) = 0 \<and> minor (npmVersion p) = 1 \<and>
             generateRegistry (allLatestTypings w) (getNpmInfoFromCache w) = Inr reg"
    then have f: "fetchAndProcessNpmInfo d (fetchNpmInfo w) = Inr p" by simp
    from publishRegistry_fetched[OF f] a
    have "publishRegistry d w = finish w (bind_run (emit (Log header_line)) (\<lambda>_. publishChecked d w p))"
      by simp
    moreover from a have "snd (publishChecked d w p) = snd ?n"
      using publishChannels_eq[of d w p reg]
      by (simp add: publishChecked_def snd_bind_run lift_def Let_def)
    ultimately show "snd (publishRegistry d w) = (case snd ?n of Inl e \<Rightarrow> Inl e | Inr u \<Rightarrow> outcome (writeLog w))"
      by (simp add: snd_finish snd_bind_run emit_def)
  qed
  from publishChannels_eq[of d w p reg] top
  show "let hash = computeHash d (JObject (registry_props reg));
          g = publishToRegistry d w p reg hash (newVersion_of p) (isSevenDaysAfter (now w) (lastModified p)) github;
          n = publishToRegistry d w p reg hash (newVersion_of p) (isSevenDaysAfter (now w) (lastModified p)) npm
      in publishChannels d w p reg =
           (fst g @ (case snd g of
                       Inl e \<Rightarrow> [Log (''publishing to github failed: '' @ error_toString e)]
                     | Inr u \<Rightarrow> []) @ fst n,
            snd n)
         \<and> (fetchAndProcessNpmInfo d (fetchNpmInfo w) = Inr p \<and>
             major (npmVersion p) = 0 \<and> minor (npmVersion p) = 1 \<and>
             generateRegistry (allLatestTypings w) (getNpmInfoFromCache w) = Inr reg \<longrightarrow>
               snd (publishRegistry d w) = (case snd n of Inl e \<Rightarrow> Inl e | Inr u \<Rightarrow> outcome (writeLog w)))"
    unfolding Let_def by (intro conjI)
next
  fix e
  assume "fetchAndProcessNpmInfo d (fetchNpmInfo w) = Inl e"
  from publishRegistry_fetch_failed[OF this] show "snd (publishRegistry d w) = Inl e"
    by simp
next
  fix e
  assume a: "fetchAndProcessNpmInfo d (fetchNpmInfo w) = Inr p \<and>
           major (npmVersion p) = 0 \<and> minor (npmVersion p) = 1 \<and>
           generateRegistry (allLatestTypings w) (getNpmInfoFromCache w) = Inl e"
  then have f: "fetchAndProcessNpmInfo d (fetchNpmInfo w) = Inr p" by simp
  from publishRegistry_fetched[OF f] a
  have "publishRegistry d w = finish w (bind_run (emit (Log header_line)) (\<lambda>_. publishChecked d w p))"
    by simp
  moreover from a have "snd (publishChecked d w p) = Inl e"
    by (simp add: publishChecked_def snd_bind_run lift_def)
  ultimately show "snd (publishRegistry d w) = Inl e"
    by (simp add: snd_finish snd_bind_run emit_def)
qed

lemma publishRegistry_result:
  "fetchAndProcessNpmInfo d (fetchNpmInfo w) = Inr p \<Longrightarrow>
   major (npmVersion p) = 0 \<Longrightarrow> minor (npmVersion p) = 1 \<Longrightarrow>
   generateRegistry (allLatestTypings w) (getNpmInfoFromCache w) = Inr reg \<Longrightarrow>
   snd (publishRegistry d w) =
     (case snd (publishToRegistry d w p reg (computeHash d (JObject (registry_props reg)))
                  (newVersion_of p) (isSevenDaysAfter (now w) (lastModified p)) npm) of
        Inl e \<Rightarrow> Inl e
      | Inr u \<Rightarrow> outcome (writeLog w))"
proof -
  assume f: "fetchAndProcessNpmInfo d (fetchNpmInfo w) = Inr p"
    and ma: "major (npmVersion p) = 0" and mi: "minor (npmVersion p) = 1"
    and g: "generateRegistry (allLatestTypings w) (getNpmInfoFromCache w) = Inr reg"
  from publishRegistry_fetched[OF f] ma mi
  have "publishRegistry d w = finish w (bind_run (emit (Log header_line)) (\<lambda>_. publishChecked d w p))"
    by simp
  moreover from g have "snd (publishChecked d w p) =
      snd (publishToRegistry d w p reg (computeHash d (JObject (registry_props reg)))
             (newVersion_of p) (isSevenDaysAfter (now w) (lastModified p)) npm)"
    using publishChannels_eq[of d w p reg]
    by (simp add: publishChecked_def snd_bind_run lift_def Let_def)
  ultimately show ?thesis
    by (simp add: snd_finish snd_bind_run emit_def)
qed

lemma example_getLatestVersion: "getLatestVersion example_deps [''0.1.6''] = Some v016"
  by (simp add: getLatestVersion_def mapDefined_def List.map_filter_simps example_deps_def parse_simps v016_def)

lemma example_versionString: "versionString v016 = ''0.1.6''"
  by (simp add: versionString_def v016_def show_nat.simps)

lemma example_fetch:
  "fetchAndProcessNpmInfo example_deps (Inr (Some example_info)) = Inr example_processed"
proof -
  have l: "map_of (distTags example_info) ''latest'' = Some ''0.1.6''"
    by (simp add: example_info_def)
  have pv: "tryParse example_deps ''0.1.6'' = Some v016"
    by (simp add: example_deps_def parse_simps v016_def)
  have hv: "getLatestVersion example_deps (map fst (versions example_info)) = Some v016"
    using example_getLatestVersion by (simp add: example_info_def)
  have nx: "map_of (distTags example_info) ''next'' = Some ''0.1.6''"
    by (simp add: example_info_def)
  have vs: "map_of (versions example_info) ''0.1.6'' = Some (Some ''H1'')"
    by (simp add: example_info_def)
  have tm: "dateTime example_deps (map_of (time example_info) ''modified'') = Some 0"
    by (simp add: example_info_def example_deps_def parse_simps)
  show ?thesis
    using fetch_steps[OF refl l pv hv]
    by (simp add: example_versionString nx vs tm example_processed_def)
qed

lemma example_generate: "generateRegistry [] (\<lambda>n. None) = Inr example_registry"
  by (simp add: generateRegistry_def example_registry_def)

lemma example_newVersion: "newVersion_of example_processed = ''0.1.7''"
  by (simp add: newVersion_of_def example_processed_def v016_def show_nat.simps)

lemma example_time: "isSevenDaysAfter (10 * millisecondsPerDay) (lastModified example_processed)"
  by (simp add: isSevenDaysAfter_def example_processed_def millisecondsPerDay_def)

lemma example_equals: "equals (highestSemverVersion example_processed) (npmVersion example_processed)"
  by (simp add: example_processed_def equals_def compare_def)

lemma example_compare:
  "assertJsonNewer example_deps (registry_props example_registry) (JObject [(''entries'', JObject [])]) ''''
     = ([], None)"
  by (simp add: assertJsonNewer_def registry_props_def example_registry_def)

lemma publish_branch:
  "equals (highestSemverVersion p) (npmVersion p) \<Longrightarrow> npmContentHash p \<noteq> h \<Longrightarrow>
   publishToRegistry d w p reg h v True rn =
     bind_run (call (WriteOutput (generatePackageJson (packageName_of rn) rn v h) reg) (writeOutput w rn)) (\<lambda>_.
     bind_run (emit (Log ''New packages have been added, so publishing a new registry.'')) (\<lambda>_.
     bind_run (lift (outcome (createClient w rn))) (\<lambda>_.
     publish d w reg rn (packageName_of rn) (generatePackageJson (packageName_of rn) rn v h) v)))"
  by (simp add: publishToRegistry_def Let_def)

lemma example_channel_publish_fails:
  "clientPublish w rn = Some e \<Longrightarrow> writeOutput w rn = None \<Longrightarrow> createClient w rn = None \<Longrightarrow>
   snd (publishToRegistry d w example_processed reg ''H2'' v True rn) = Inl e"
  using example_equals
  by (simp add: publish_branch example_processed_def publish_def run_simps)

lemma example_channel_succeeds:
  "snd (publishToRegistry example_deps example_world example_processed example_registry ''H2'' v True rn) = Inr ()"
proof -
  have "snd (validate example_deps example_world example_registry rn) = Inr ()"
    unfolding validate_result by (simp add: example_world_def example_compare)
  then show ?thesis
    using example_equals
    by (simp add: publish_branch example_processed_def publish_def run_simps example_world_def
        split: sum.splits)
qed

lemma channel_succeeds:
  "writeOutput w rn = None \<Longrightarrow> createClient w rn = None \<Longrightarrow> clientPublish w rn = None \<Longrightarrow>
   clientTag w rn = None \<Longrightarrow> prepareValidate w rn = None \<Longrightarrow> npmInstall w rn = None \<Longrightarrow>
   readInstalled w rn = Inr (JObject [(''entries'', JObject [])]) \<Longrightarrow>
   snd (publishToRegistry example_deps w example_processed example_registry ''H2'' v True rn) = Inr ()"
proof -
  assume a: "writeOutput w rn = None" "createClient w rn = None" "clientPublish w rn = None"
    "clientTag w rn = None" "prepareValidate w rn = None" "npmInstall w rn = None"
    "readInstalled w rn = Inr (JObject [(''entries'', JObject [])])"
  have "snd (validate example_deps w example_registry rn) = Inr ()"
    unfolding validate_result by (simp add: a example_compare)
  then show ?thesis
    using example_equals
    by (simp add: publish_branch example_processed_def publish_def run_simps a split: sum.splits)
qed

lemma github_fails_world_simps:
  "fetchNpmInfo github_fails_world = Inr (Some example_info)"
  "allLatestTypings github_fails_world = []"
  "getNpmInfoFromCache github_fails_world = (\<lambda>n. None)"
  "now github_fails_world = 10 * millisecondsPerDay"
  "writeLog github_fails_world = None"
  "writeOutput github_fails_world rn = None" "createClient github_fails_world rn = None"
  "clientTag github_fails_world rn = None" "prepareValidate github_fails_world rn = None"
  "npmInstall github_fails_world rn = None"
  "readInstalled github_fails_world rn = Inr (JObject [(''entries'', JObject [])])"
  "clientPublish github_fails_world github = Some (ExternalError ''publish failed'')"
  "clientPublish github_fails_world npm = None"
  by (simp_all add: github_fails_world_def example_world_def)

lemma npm_fails_world_simps:
  "fetchNpmInfo npm_fails_world = Inr (Some example_info)"
  "allLatestTypings npm_fails_world = []"
  "getNpmInfoFromCache npm_fails_world = (\<lambda>n. None)"
  "now npm_fails_world = 10 * millisecondsPerDay"
  "writeLog npm_fails_world = None"
  "writeOutput npm_fails_world rn = None" "createClient npm_fails_world rn = None"
  "clientTag npm_fails_world rn = None" "prepareValidate npm_fails_world rn = None"
  "npmInstall npm_fails_world rn = None"
  "readInstalled npm_fails_world rn = Inr (JObject [(''entries'', JObject [])])"
  "clientPublish npm_fails_world npm = Some (ExternalError ''publish failed'')"
  "clientPublish npm_fails_world github = None"
  by (simp_all add: npm_fails_world_def example_world_def)

lemma example_hash: "computeHash example_deps doc = ''H2''"
  by (simp add: example_deps_def)

lemma example_scheme: "major (npmVersion example_processed) = 0" "minor (npmVersion example_processed) = 1"
  by (simp_all add: example_processed_def v016_def)

text \<open>
  Read as it stands, C2 has the failure of the channel without \<open>publishConfig\<close>
  swallowed. Here the \<open>github\<close> channel succeeds, the publish step of the \<open>npm\<close>
  channel, whose manifest has no \<open>publishConfig\<close>, fails, and the run ends with that error.
\<close>

theorem npm_failure_propagates_counterexample:
  "publishConfig (generatePackageJson (packageName_of npm) npm ''0.1.7'' ''H2'') = None
   \<and> clientPublish npm_fails_world npm = Some (ExternalError ''publish failed'')
   \<and> snd (publishToRegistry example_deps npm_fails_world example_processed example_registry
            ''H2'' ''0.1.7'' True github) = Inr ()
   \<and> snd (publishRegistry example_deps npm_fails_world) = Inl (ExternalError ''publish failed'')"
proof -
  have f: "fetchAndProcessNpmInfo example_deps (fetchNpmInfo npm_fails_world) = Inr example_processed"
    by (simp add: npm_fails_world_simps example_fetch)
  have g: "generateRegistry (allLatestTypings npm_fails_world) (getNpmInfoFromCache npm_fails_world)
             = Inr example_registry"
    by (simp add: npm_fails_world_simps example_generate)
  have n: "snd (publishToRegistry example_deps npm_fails_world example_processed example_registry
                  ''H2'' ''0.1.7'' True npm) = Inl (ExternalError ''publish failed'')"
    by (rule example_channel_publish_fails) (simp_all add: npm_fails_world_simps)
  have gh: "snd (publishToRegistry example_deps npm_fails_world example_processed example_registry
                  ''H2'' ''0.1.7'' True github) = Inr ()"
    by (rule channel_succeeds) (simp_all add: npm_fails_world_simps)
  have top: "snd (publishRegistry example_deps npm_fails_world) = Inl (ExternalError ''publish failed'')"
    using publishRegistry_result[OF f example_scheme g] n example_time
    by (simp add: example_hash example_newVersion npm_fails_world_simps)
  have pc: "publishConfig (generatePackageJson (packageName_of npm) npm ''0.1.7'' ''H2'') = None"
    by (simp add: generatePackageJson_def)
  from pc gh top show ?thesis
    by (simp add: npm_fails_world_simps)
qed

theorem github_failure_is_swallowed_witness:
  "snd (publishToRegistry example_deps github_fails_world example_processed example_registry
          ''H2'' ''0.1.7'' True github) = Inl (ExternalError ''publish failed'')
   \<and> Log ''publishing to github failed: Error: publish failed''
        \<in> set (fst (publishChannels example_deps github_fails_world example_processed example_registry))
   \<and> snd (publishRegistry example_deps github_fails_world) = Inr ()"
proof -
  let ?w = github_fails_world
  let ?g = "publishToRegistry example_deps ?w example_processed example_registry ''H2'' ''0.1.7'' True github"
  let ?n = "publishToRegistry example_deps ?w example_processed example_registry ''H2'' ''0.1.7'' True npm"
  have f: "fetchAndProcessNpmInfo example_deps (fetchNpmInfo ?w) = Inr example_processed"
    by (simp add: github_fails_world_simps example_fetch)
  have g: "generateRegistry (allLatestTypings ?w) (getNpmInfoFromCache ?w) = Inr example_registry"
    by (simp add: github_fails_world_simps example_generate)
  have gh: "snd ?g = Inl (ExternalError ''publish failed'')"
    by (rule example_channel_publish_fails) (simp_all add: github_fails_world_simps)
  have n: "snd ?n = Inr ()"
    by (rule channel_succeeds) (simp_all add: github_fails_world_simps)
  have t: "isSevenDaysAfter (now ?w) (lastModified example_processed)"
    using example_time by (simp add: github_fails_world_simps)
  from github_failure_is_swallowed[of "''0.1.7''" "''H2''" example_deps example_registry ?w example_processed]
  have ch: "publishChannels example_deps ?w example_processed example_registry =
              (fst ?g @ (case snd ?g of
                           Inl e \<Rightarrow> [Log (''publishing to github failed: '' @ error_toString e)]
                         | Inr u \<Rightarrow> []) @ fst ?n, snd ?n)"
    and top: "snd (publishRegistry example_deps ?w) =
                (case snd ?n of Inl e \<Rightarrow> Inl e | Inr u \<Rightarrow> outcome (writeLog ?w))"
    using f g example_scheme t
    by (simp_all add: Let_def example_hash example_newVersion)
  from ch gh have "Log ''publishing to github failed: Error: publish failed''
        \<in> set (fst (publishChannels example_deps ?w example_processed example_registry))"
    by simp
  moreover from top n have "snd (publishRegistry example_deps ?w) = Inr ()"
    by (simp add: github_fails_world_simps outcome_def)
  ultimately show ?thesis
    using gh by simp
qed

text \<open>
  Read as it stands, C9 has every published version outside \<open>0.1.x\<close> end in a failed
  assertion. The assertions on the major and minor numbers come after the hash of the
  version under \<open>latest\<close> is read: here \<open>latest\<close> is \<open>1.0.0\<close>, \<open>next\<close> is the highest
  published version \<open>0.1.6\<close>, and \<open>1.0.0\<close> is not among the published versions, so the
  run ends with a \<open>TypeError\<close> and no assertion has failed.
\<close>

theorem latest_unpublished_counterexample:
  "map_of (distTags latest_unpublished_info) ''latest'' = Some ''1.0.0''
   \<and> tryParse example_deps ''1.0.0'' = Some v100
   \<and> major v100 \<noteq> 0
   \<and> publishRegistry example_deps (example_world\<lparr>fetchNpmInfo := Inr (Some latest_unpublished_info)\<rparr>)
       = ([Log header_line], Inl (TypeError ''Cannot read property typesPublisherContentHash of undefined''))"
proof -
  let ?w = "example_world\<lparr>fetchNpmInfo := Inr (Some latest_unpublished_info)\<rparr>"
  have l: "map_of (distTags latest_unpublished_info) ''latest'' = Some ''1.0.0''"
    by (simp add: latest_unpublished_info_def)
  have pv: "tryParse example_deps ''1.0.0'' = Some v100"
    by (simp add: example_deps_def parse_simps v100_def)
  have hv: "getLatestVersion example_deps (map fst (versions latest_unpublished_info)) = Some v016"
    using example_getLatestVersion by (simp add: latest_unpublished_info_def)
  have nx: "map_of (distTags latest_unpublished_info) ''next'' = Some (versionString v016)"
    by (simp add: example_versionString latest_unpublished_info_def)
  have vs100: "versionString v100 = ''1.0.0''"
    by (simp add: versionString_def v100_def show_nat.simps)
  have absent: "map_of (versions latest_unpublished_info) (versionString v100) = None"
    by (simp add: vs100 latest_unpublished_info_def)
  have f: "fetchNpmInfo ?w = Inr (Some latest_unpublished_info)"
    by simp
  have "fetchAndProcessNpmInfo example_deps (fetchNpmInfo ?w)
          = Inl (TypeError ''Cannot read property typesPublisherContentHash of undefined'')"
    using fetch_steps[OF f l pv hv] by (simp add: nx absent)
  from publishRegistry_fetch_failed[OF this] l pv show ?thesis
    by (simp add: v100_def)
qed

theorem invariant_assertions_witness:
  "publishRegistry example_deps (example_world\<lparr>fetchNpmInfo := Inr (Some next_behind_info)\<rparr>)
     = ([Log header_line], Inl next_assertion)
   \<and> publishRegistry example_deps (example_world\<lparr>fetchNpmInfo := Inr (Some major_one_info)\<rparr>)
     = ([Log header_line], Inl major_assertion)
   \<and> publishRegistry example_deps example_world
     = finish example_world (bind_run (emit (Log header_line)) (\<lambda>_.
         publishChecked example_deps example_world example_processed))"
proof -
  let ?w1 = "example_world\<lparr>fetchNpmInfo := Inr (Some next_behind_info)\<rparr>"
  let ?w2 = "example_world\<lparr>fetchNpmInfo := Inr (Some major_one_info)\<rparr>"
  have p016: "tryParse example_deps ''0.1.6'' = Some v016"
    by (simp add: example_deps_def parse_simps v016_def)
  have p100: "tryParse example_deps ''1.0.0'' = Some v100"
    by (simp add: example_deps_def parse_simps v100_def)
  have h100: "getLatestVersion example_deps [''1.0.0''] = Some v100"
    by (simp add: getLatestVersion_def mapDefined_def List.map_filter_simps example_deps_def parse_simps v100_def)
  have vs100: "versionString v100 = ''1.0.0''"
    by (simp add: versionString_def v100_def show_nat.simps)
  have a1: "fetchNpmInfo ?w1 = Inr (Some next_behind_info) \<and>
            map_of (distTags next_behind_info) ''latest'' = Some ''0.1.6'' \<and>
            tryParse example_deps ''0.1.6'' = Some v016 \<and>
            getLatestVersion example_deps (map fst (versions next_behind_info)) = Some v016"
    using p016 example_getLatestVersion by (simp add: next_behind_info_def example_info_def)
  have b1: "Some (versionString v016) \<noteq> map_of (distTags next_behind_info) ''next''"
    by (simp add: example_versionString next_behind_info_def)
  from invariant_assertions[of ?w1 next_behind_info "''0.1.6''" example_deps v016 v016 None] a1 b1
  have r1: "publishRegistry example_deps ?w1 = ([Log header_line], Inl next_assertion)"
    by blast
  have a2: "fetchNpmInfo ?w2 = Inr (Some major_one_info) \<and>
            map_of (distTags major_one_info) ''latest'' = Some ''1.0.0'' \<and>
            tryParse example_deps ''1.0.0'' = Some v100 \<and>
            getLatestVersion example_deps (map fst (versions major_one_info)) = Some v100"
    using p100 h100 by (simp add: major_one_info_def)
  have b2: "Some (versionString v100) = map_of (distTags major_one_info) ''next'' \<and>
            map_of (versions major_one_info) (versionString v100) = Some None"
    by (simp add: vs100 major_one_info_def)
  have c2: "major v100 \<noteq> 0"
    by (simp add: v100_def)
  from invariant_assertions[of ?w2 major_one_info "''1.0.0''" example_deps v100 v100 None] a2 b2 c2
  have r2: "publishRegistry example_deps ?w2 = ([Log header_line], Inl major_assertion)"
    by blast
  have a3: "fetchNpmInfo example_world = Inr (Some example_info) \<and>
            map_of (distTags example_info) ''latest'' = Some ''0.1.6'' \<and>
            tryParse example_deps ''0.1.6'' = Some v016 \<and>
            getLatestVersion example_deps (map fst (versions example_info)) = Some v016"
    using p016 example_getLatestVersion by (simp add: example_world_def example_info_def)
  have b3: "Some (versionString v016) = map_of (distTags example_info) ''next'' \<and>
            map_of (versions example_info) (versionString v016) = Some (Some ''H1'')"
    by (simp add: example_versionString example_info_def)
  have c3: "major v016 = 0 \<and> minor v016 = 1"
    by (simp add: v016_def)
  have p3: "\<lparr>npmVersion = v016, highestSemverVersion = v016,
             npmContentHash = (case Some ''H1'' of None \<Rightarrow> '''' | Some x \<Rightarrow> x),
             lastModified = dateTime example_deps (map_of (time example_info) ''modified'')\<rparr>
            = example_processed"
    by (simp add: example_processed_def example_info_def example_deps_def parse_simps)
  from invariant_assertions[of example_world example_info "''0.1.6''" example_deps v016 v016 "Some ''H1''"] a3 b3 c3
  have "publishRegistry example_deps example_world
     = finish example_world (bind_run (emit (Log header_line)) (\<lambda>_.
         publishChecked example_deps example_world
           \<lparr>npmVersion = v016, highestSemverVersion = v016,
             npmContentHash = (case Some ''H1'' of None \<Rightarrow> '''' | Some x \<Rightarrow> x),
             lastModified = dateTime example_deps (map_of (time example_info) ''modified'')\<rparr>))"
    by blast
  then have r3: "publishRegistry example_deps example_world
     = finish example_world (bind_run (emit (Log header_line)) (\<lambda>_.
         publishChecked example_deps example_world example_processed))"
    unfolding p3 .
  from r1 r2 r3 show ?thesis
    by blast
qed

end
